theory Spec2Isabelle
  imports Complex_Main
begin

section \<open>Country Farm back office: ledger, mortality counter, orders, activity feed\<close>

text \<open>
  The route handlers of \<^verbatim>\<open>src/server/routes\<close> are embedded as functions that take
  the database state and the request and return the HTTP outcome together with the new
  database state. A table is the list of its rows in rowid order. An exception raised by
  a statement (a violated constraint, a value the driver cannot bind, a storage fault) is
  caught by the handler's \<^verbatim>\<open>try/catch\<close> and becomes the outcome \<open>ServerError\<close>;
  the statements that ran before it stay applied, because the handlers of sales, poultry
  and orders open no transaction.
\<close>

subsection \<open>JavaScript numbers\<close>

text \<open>
  A number is an IEEE 754 double: a finite value, an infinity or NaN. A finite value is
  kept as the rational it denotes (the two zeros are not told apart). Every arithmetic
  result is rounded to the nearest double, ties to the even mantissa, by \<open>fl\<close>.
\<close>

datatype jsnum = Fin rat | PInf | NInf | NaN

function ilog2 :: "int \<Rightarrow> int" where
  "ilog2 n = (if n < 2 then 0 else 1 + ilog2 (n div 2))"
  by pat_completeness auto
termination
  by (relation "measure nat") auto

declare ilog2.simps [simp del]

definition pow2 :: "int \<Rightarrow> rat" where
  "pow2 k = (if 0 \<le> k then 2 ^ nat k else 1 / 2 ^ nat (- k))"

definition exponent :: "rat \<Rightarrow> int" where
  \<comment> \<open>the \<open>e\<close> with \<open>2^e \<le> a < 2^(e+1)\<close>, for a positive \<open>a\<close>\<close>
  "exponent a =
     (if 1 \<le> a then ilog2 \<lfloor>a\<rfloor>
      else let m = ilog2 \<lfloor>1 / a\<rfloor> in if a * pow2 m = 1 then - m else - (m + 1))"

definition round_half_even :: "rat \<Rightarrow> int" where
  "round_half_even q =
     (let f = \<lfloor>q\<rfloor>; r = q - of_int f
      in if r < 1 / 2 then f else if 1 / 2 < r then f + 1
         else if even f then f else f + 1)"

definition fl :: "rat \<Rightarrow> jsnum" where
  \<comment> \<open>53 bits of mantissa, exponents from -1022 (subnormals below), overflow to infinity\<close>
  "fl x =
     (if x = 0 then Fin 0
      else
        let e = max (exponent \<bar>x\<bar>) (- 1022);
            u = pow2 (e - 52);
            y = of_int (round_half_even (x / u)) * u
        in if pow2 1024 \<le> \<bar>y\<bar> then (if 0 < x then PInf else NInf) else Fin y)"

fun jsneg :: "jsnum \<Rightarrow> jsnum" where
  "jsneg (Fin a) = Fin (- a)"
| "jsneg PInf = NInf"
| "jsneg NInf = PInf"
| "jsneg NaN = NaN"

fun jsadd :: "jsnum \<Rightarrow> jsnum \<Rightarrow> jsnum" where
  "jsadd (Fin a) (Fin b) = fl (a + b)"
| "jsadd NaN y = NaN"
| "jsadd x NaN = NaN"
| "jsadd PInf NInf = NaN"
| "jsadd NInf PInf = NaN"
| "jsadd PInf y = PInf"
| "jsadd NInf y = NInf"
| "jsadd x PInf = PInf"
| "jsadd x NInf = NInf"

definition jssub :: "jsnum \<Rightarrow> jsnum \<Rightarrow> jsnum" where
  "jssub x y = jsadd x (jsneg y)"

definition sign_inf :: "bool \<Rightarrow> jsnum" where
  "sign_inf positive = (if positive then PInf else NInf)"

fun jsmul :: "jsnum \<Rightarrow> jsnum \<Rightarrow> jsnum" where
  "jsmul (Fin a) (Fin b) = fl (a * b)"
| "jsmul NaN y = NaN"
| "jsmul x NaN = NaN"
| "jsmul (Fin a) PInf = (if a = 0 then NaN else sign_inf (0 < a))"
| "jsmul (Fin a) NInf = (if a = 0 then NaN else sign_inf (a < 0))"
| "jsmul PInf (Fin b) = (if b = 0 then NaN else sign_inf (0 < b))"
| "jsmul NInf (Fin b) = (if b = 0 then NaN else sign_inf (b < 0))"
| "jsmul PInf PInf = PInf"
| "jsmul NInf NInf = PInf"
| "jsmul PInf NInf = NInf"
| "jsmul NInf PInf = NInf"



fun exact :: "jsnum \<Rightarrow> rat" where
  "exact (Fin a) = a"
| "exact _ = 0"

fun is_fin :: "jsnum \<Rightarrow> bool" where
  "is_fin (Fin a) = True"
| "is_fin _ = False"

subsection \<open>Values of a request body and of a column\<close>

text \<open>
  A handler reads its arguments from \<^verbatim>\<open>req.body\<close>, which is untyped: a field is
  absent (\<open>JUndef\<close>), null, a boolean, a number, a string, or an array or object
  (\<open>JObj\<close> with its JSON text).
\<close>

datatype jsval = JUndef | JNull | JBool bool | JNum jsnum | JStr string | JObj string

text \<open>
  What SQLite stores in a column: NULL, a number or a text.
\<close>

datatype sqlval = SNull | SNum jsnum | SText string

text \<open>
  The conversions between texts and numbers belong to the JavaScript runtime and to the
  SQL engine; the handlers are written against them, and the model takes them as the
  parameter \<open>rt\<close>:
  \<^item> \<open>str_number\<close>: the number JavaScript reads from a string (\<^verbatim>\<open>"2" * 3\<close>);
  \<^item> \<open>obj_text\<close>: the string an array or object turns into in arithmetic;
  \<^item> \<open>sql_numeric\<close>: the number SQLite puts in a numeric column for a text that looks
    like a number, as the double that arithmetic with a bound parameter and the driver's
    reads take it for, \<open>None\<close> for a text it stores as it is;
  \<^item> \<open>num_text\<close>: the text SQLite puts in a TEXT column for a number;
  \<^item> \<open>text_arith\<close>: SQL \<^verbatim>\<open>+\<close> and \<^verbatim>\<open>-\<close> when an operand is a text.
\<close>

record runtime =
  str_number :: "string \<Rightarrow> jsnum"
  obj_text :: "string \<Rightarrow> string"
  sql_numeric :: "string \<Rightarrow> jsnum option"
  num_text :: "jsnum \<Rightarrow> string"
  text_arith :: "string \<Rightarrow> sqlval \<Rightarrow> sqlval \<Rightarrow> sqlval"

fun truthy :: "jsval \<Rightarrow> bool" where
  "truthy JUndef = False"
| "truthy JNull = False"
| "truthy (JBool b) = b"
| "truthy (JNum n) = (n \<noteq> Fin 0 \<and> n \<noteq> NaN)"
| "truthy (JStr s) = (s \<noteq> [])"
| "truthy (JObj j) = True"

definition js_or :: "jsval \<Rightarrow> jsval \<Rightarrow> jsval" where
  \<comment> \<open>\<^verbatim>\<open>x || d\<close>\<close>
  "js_or x d = (if truthy x then x else d)"

fun to_number :: "runtime \<Rightarrow> jsval \<Rightarrow> jsnum" where
  "to_number rt JUndef = NaN"
| "to_number rt JNull = Fin 0"
| "to_number rt (JBool b) = (if b then Fin 1 else Fin 0)"
| "to_number rt (JNum n) = n"
| "to_number rt (JStr s) = str_number rt s"
| "to_number rt (JObj j) = str_number rt (obj_text rt j)"

text \<open>
  The driver binds a parameter of a statement: undefined and null as NULL, a number as a
  double (NaN arrives as NULL), a string as text; it raises a TypeError on a boolean, an
  array or an object (\<open>None\<close>).
\<close>

fun bind :: "jsval \<Rightarrow> sqlval option" where
  "bind JUndef = Some SNull"
| "bind JNull = Some SNull"
| "bind (JNum n) = Some (if n = NaN then SNull else SNum n)"
| "bind (JStr s) = Some (SText s)"
| "bind (JBool b) = None"
| "bind (JObj j) = None"

fun numeric_affinity :: "runtime \<Rightarrow> sqlval \<Rightarrow> sqlval" where
  \<comment> \<open>a value on its way into an INTEGER, REAL or DATE column, or compared with one\<close>
  "numeric_affinity rt (SText s) =
     (case sql_numeric rt s of None \<Rightarrow> SText s | Some n \<Rightarrow> SNum n)"
| "numeric_affinity rt v = v"

fun text_affinity :: "runtime \<Rightarrow> sqlval \<Rightarrow> sqlval" where
  \<comment> \<open>a value on its way into a TEXT column\<close>
  "text_affinity rt (SNum n) = SText (num_text rt n)"
| "text_affinity rt v = v"

fun js_of_sql :: "sqlval \<Rightarrow> jsval" where
  \<comment> \<open>a column as the driver hands it to JavaScript\<close>
  "js_of_sql SNull = JNull"
| "js_of_sql (SNum n) = JNum n"
| "js_of_sql (SText s) = JStr s"

definition col_number :: "runtime \<Rightarrow> sqlval \<Rightarrow> jsnum" where
  \<comment> \<open>the number JavaScript computes with when it reads the column\<close>
  "col_number rt v = to_number rt (js_of_sql v)"

text \<open>
  SQL arithmetic \<^verbatim>\<open>a + b\<close> and \<^verbatim>\<open>a - b\<close> where \<open>b\<close> is a bound parameter. NULL
  absorbs; on two numbers it is the arithmetic of doubles (a bound number is always a
  double), and a NaN result is NULL; with a text operand it is the engine's business.
\<close>

fun sql_arith :: "runtime \<Rightarrow> string \<Rightarrow> sqlval \<Rightarrow> sqlval \<Rightarrow> sqlval" where
  "sql_arith rt oper SNull b = SNull"
| "sql_arith rt oper a SNull = SNull"
| "sql_arith rt oper (SNum x) (SNum y) =
     (let r = (if oper = ''+'' then jsadd x y else jssub x y)
      in if r = NaN then SNull else SNum r)"
| "sql_arith rt oper a b = text_arith rt oper a b"

definition id_matches :: "runtime \<Rightarrow> int \<Rightarrow> sqlval \<Rightarrow> bool" where
  \<comment> \<open>\<^verbatim>\<open>WHERE id = ?\<close> on an INTEGER PRIMARY KEY\<close>
  "id_matches rt k v = (numeric_affinity rt v = SNum (Fin (of_int k)))"

datatype http_error = BadRequest | NotFound | ServerError

fun can_bind :: "jsval \<Rightarrow> bool" where
  "can_bind (JBool b) = False"
| "can_bind (JObj j) = False"
| "can_bind v = True"

definition bound :: "jsval \<Rightarrow> sqlval" where
  \<comment> \<open>the bound value of a parameter that the driver accepts\<close>
  "bound v = (case bind v of None \<Rightarrow> SNull | Some s \<Rightarrow> s)"

definition text_of :: "runtime \<Rightarrow> sqlval \<Rightarrow> string" where
  \<comment> \<open>the content of a TEXT NOT NULL column; a NULL never gets that far\<close>
  "text_of rt v = (case text_affinity rt v of SText s \<Rightarrow> s | _ \<Rightarrow> [])"

subsection \<open>Schema (\<^verbatim>\<open>db/schema.ts\<close>)\<close>

text \<open>
  A column declared TEXT NOT NULL holds a string. A numeric or DATE column, and a TEXT
  column that may be NULL, holds an \<open>sqlval\<close>: SQLite keeps a text that does not look
  like a number in a numeric column as it is.
\<close>

record customer =
  cust_id :: int
  cust_name :: string
  total_purchases :: sqlval

record sale =
  sale_id :: int
  customer_id :: sqlval
  sale_date :: sqlval
  sale_type :: string
  quantity :: sqlval
  unit_price :: sqlval
  total_amount :: sqlval
  payment_status :: sqlval
  payment_method :: sqlval
  sale_notes :: sqlval
  sale_recorded_by :: int
  sale_created_at :: nat

record batch =
  batch_id :: int
  batch_name :: string
  bird_type :: string
  initial_count :: sqlval
  current_count :: sqlval
  date_acquired :: sqlval
  batch_source :: sqlval
  cost_per_bird :: sqlval
  batch_notes :: sqlval
  batch_status :: string
  batch_created_by :: int
  batch_created_at :: nat
  batch_updated_at :: nat

record health_record =
  hr_id :: int
  hr_batch_id :: sqlval
  hr_date :: sqlval
  record_type :: string
  hr_description :: string
  mortality_count :: sqlval
  hr_cost :: sqlval
  administered_by :: sqlval
  hr_notes :: sqlval
  hr_recorded_by :: int
  hr_created_at :: nat

record egg_record =
  egg_id :: int
  egg_batch_id :: sqlval
  egg_date :: sqlval
  eggs_collected :: sqlval
  broken_eggs :: sqlval
  egg_created_at :: nat

record order_item =
  product :: jsval
  item_quantity :: jsval
  unitPrice :: jsval

text \<open>
  An element of the \<^verbatim>\<open>items\<close> array: null, a boolean, number or string, or an object
  with its fields.
\<close>

datatype jsitem = ItemNull | ItemPrimitive | Item order_item

record order =
  order_id :: int
  order_number :: string
  customer_name :: string
  customer_email :: sqlval
  customer_phone :: string
  delivery_address :: sqlval
  order_items :: "jsitem list"
  order_total_amount :: sqlval
  order_notes :: sqlval
  status :: string
  order_created_at :: nat

text \<open>
  \<open>users\<close> holds the ids of the users table. The \<open>*_seq\<close> fields are the
  \<^verbatim>\<open>sqlite_sequence\<close> entries of the AUTOINCREMENT keys. \<open>foreign_keys\<close> is the
  engine's foreign-key enforcement switch: \<^verbatim>\<open>schema.ts\<close> never sets the pragma, so
  the driver's default decides, and the model leaves it open. \<open>order_items\<close> is the
  array whose JSON text the column holds.
\<close>

record db =
  users :: "int list"
  customers :: "customer list"
  sales :: "sale list"
  sales_seq :: int
  poultry_batches :: "batch list"
  batches_seq :: int
  health_records :: "health_record list"
  health_seq :: int
  egg_production :: "egg_record list"
  orders :: "order list"
  orders_seq :: int
  foreign_keys :: bool

definition next_rowid :: "int \<Rightarrow> int list \<Rightarrow> int" where
  \<comment> \<open>AUTOINCREMENT: one more than the largest rowid the table has ever held\<close>
  "next_rowid seq ids = fold max ids seq + 1"

definition references :: "db \<Rightarrow> int \<Rightarrow> int list \<Rightarrow> bool" where
  \<comment> \<open>\<^verbatim>\<open>REFERENCES t(id)\<close> on a key the server supplies, checked only when enforcement is on\<close>
  "references d k ids = (\<not> foreign_keys d \<or> k \<in> set ids)"

fun references_col :: "db \<Rightarrow> sqlval \<Rightarrow> int list \<Rightarrow> bool" where
  \<comment> \<open>\<^verbatim>\<open>REFERENCES t(id)\<close> on a stored column: NULL refers to nothing\<close>
  "references_col d SNull ids = True"
| "references_col d v ids = (\<not> foreign_keys d \<or> list_ex (\<lambda>k. v = SNum (Fin (of_int k))) ids)"

subsection \<open>Sales (\<^verbatim>\<open>routes/sales.ts\<close>)\<close>

record sale_body =
  sb_customerId :: jsval
  sb_saleDate :: jsval
  sb_saleType :: jsval
  sb_quantity :: jsval
  sb_unitPrice :: jsval
  sb_paymentStatus :: jsval
  sb_paymentMethod :: jsval
  sb_notes :: jsval
  sb_totalAmount :: jsval

text \<open>
  \<open>sb_totalAmount\<close> is a total the client may put in the body; the handler
  destructures eight other fields and never reads it.
\<close>

definition sale_types :: "string list" where
  "sale_types = [''eggs'', ''birds'', ''manure'', ''other'']"

definition payment_statuses :: "string list" where
  "payment_statuses = [''pending'', ''partial'', ''paid'']"

fun check_in :: "string list \<Rightarrow> sqlval \<Rightarrow> bool" where
  \<comment> \<open>\<^verbatim>\<open>CHECK(col IN (...))\<close> on a TEXT column: a NULL passes\<close>
  "check_in xs SNull = True"
| "check_in xs (SText s) = (s \<in> set xs)"
| "check_in xs (SNum n) = False"

definition adjust_purchases ::
  "runtime \<Rightarrow> string \<Rightarrow> sqlval \<Rightarrow> sqlval \<Rightarrow> customer list \<Rightarrow> customer list" where
  \<comment> \<open>\<^verbatim>\<open>UPDATE customers SET total_purchases = total_purchases + ? WHERE id = ?\<close>,
      and the same with \<^verbatim>\<open>-\<close>\<close>
  "adjust_purchases rt oper amount cid cs =
     map (\<lambda>c. if id_matches rt (cust_id c) cid
               then c\<lparr>total_purchases := sql_arith rt oper (total_purchases c) amount\<rparr>
               else c) cs"

definition totalAmount :: "runtime \<Rightarrow> sale_body \<Rightarrow> jsnum" where
  \<comment> \<open>\<^verbatim>\<open>const totalAmount = quantity * unitPrice\<close>\<close>
  "totalAmount rt b = jsmul (to_number rt (sb_quantity b)) (to_number rt (sb_unitPrice b))"

definition sale_params :: "runtime \<Rightarrow> sale_body \<Rightarrow> jsval list" where
  \<comment> \<open>the parameters of the INSERT, in order (the user id is supplied by the server)\<close>
  "sale_params rt b =
     [sb_customerId b, sb_saleDate b, sb_saleType b, sb_quantity b, sb_unitPrice b,
      JNum (totalAmount rt b), js_or (sb_paymentStatus b) (JStr ''pending''),
      js_or (sb_paymentMethod b) JNull, js_or (sb_notes b) JNull]"

definition new_sale :: "runtime \<Rightarrow> int \<Rightarrow> nat \<Rightarrow> sale_body \<Rightarrow> db \<Rightarrow> sale" where
  \<comment> \<open>the row written by the INSERT\<close>
  "new_sale rt uid now b d =
     \<lparr> sale_id = next_rowid (sales_seq d) (map sale_id (sales d)),
       customer_id = numeric_affinity rt (bound (sb_customerId b)),
       sale_date = numeric_affinity rt (bound (sb_saleDate b)),
       sale_type = text_of rt (bound (sb_saleType b)),
       quantity = numeric_affinity rt (bound (sb_quantity b)),
       unit_price = numeric_affinity rt (bound (sb_unitPrice b)),
       total_amount = bound (JNum (totalAmount rt b)),
       payment_status = text_affinity rt (bound (js_or (sb_paymentStatus b) (JStr ''pending''))),
       payment_method = text_affinity rt (bound (js_or (sb_paymentMethod b) JNull)),
       sale_notes = text_affinity rt (bound (js_or (sb_notes b) JNull)),
       sale_recorded_by = uid, sale_created_at = now \<rparr>"

definition sale_constraints :: "sale \<Rightarrow> db \<Rightarrow> bool" where
  \<comment> \<open>NOT NULL on the total (a NaN product arrives as NULL; the other NOT NULL columns
      hold fields that passed the presence test), and the CHECK and REFERENCES clauses\<close>
  "sale_constraints row d =
     (total_amount row \<noteq> SNull
      \<and> sale_type row \<in> set sale_types
      \<and> check_in payment_statuses (payment_status row)
      \<and> references_col d (customer_id row) (map cust_id (customers d))
      \<and> references d (sale_recorded_by row) (users d))"

definition insert_sale :: "sale \<Rightarrow> db \<Rightarrow> db" where
  "insert_sale row d = d\<lparr>sales := sales d @ [row], sales_seq := sale_id row\<rparr>"

definition credit_customer :: "runtime \<Rightarrow> sale_body \<Rightarrow> db \<Rightarrow> db" where
  \<comment> \<open>\<^verbatim>\<open>.run(totalAmount, customerId)\<close>\<close>
  "credit_customer rt b d =
     d\<lparr>customers := adjust_purchases rt ''+'' (bound (JNum (totalAmount rt b)))
                       (bound (sb_customerId b)) (customers d)\<rparr>"

text \<open>
  POST \<^verbatim>\<open>/api/sales\<close>. \<open>fault\<close> is the number of the statement (1 the INSERT, 2 the
  UPDATE of the customer, 3 the final SELECT) at which the storage engine raises an error of
  its own (busy, I/O), if any; \<open>uid\<close> is the authenticated user and \<open>now\<close> the
  engine's CURRENT_TIMESTAMP.
\<close>

definition recordSale ::
  "runtime \<Rightarrow> nat option \<Rightarrow> int \<Rightarrow> nat \<Rightarrow> sale_body \<Rightarrow> db \<Rightarrow> (http_error + sale) \<times> db" where
  "recordSale rt fault uid now b d =
    (if \<not> truthy (sb_customerId b) \<or> \<not> truthy (sb_saleDate b)
        \<or> \<not> truthy (sb_saleType b) \<or> \<not> truthy (sb_quantity b)
        \<or> \<not> truthy (sb_unitPrice b)
     then (Inl BadRequest, d)
     else
       let row = new_sale rt uid now b d in
       if fault = Some 1 \<or> \<not> list_all can_bind (sale_params rt b)
          \<or> \<not> sale_constraints row d
       then (Inl ServerError, d)
       else
         let d1 = insert_sale row d in
         if fault = Some 2 then (Inl ServerError, d1)
         else
           let d2 = credit_customer rt b d1 in
           if fault = Some 3 then (Inl ServerError, d2)
           else (Inr row, d2))"

record sale_update_body =
  ub_paymentStatus :: jsval
  ub_paymentMethod :: jsval
  ub_notes :: jsval

definition set_payment :: "runtime \<Rightarrow> int \<Rightarrow> sale_update_body \<Rightarrow> sale \<Rightarrow> sale" where
  \<comment> \<open>\<^verbatim>\<open>SET payment_status = ?, payment_method = ?, notes = ? WHERE id = ?\<close> on one row\<close>
  "set_payment rt sid b s =
     (if sale_id s = sid
      then s\<lparr>payment_status := text_affinity rt (bound (ub_paymentStatus b)),
             payment_method := text_affinity rt (bound (ub_paymentMethod b)),
             sale_notes := text_affinity rt (bound (ub_notes b))\<rparr>
      else s)"

text \<open>
  PUT \<^verbatim>\<open>/api/sales/:id\<close>. A field the body omits is bound as NULL and written. The
  UPDATE (statement 1) fails on a value the driver cannot bind and, when a row has the id,
  on a payment status outside the CHECK list. The answer is the row read back (statement
  2), \<open>None\<close> when no sale has the id (the handler then sends an empty body).
  \<open>fault\<close> is the statement at which the storage engine raises an error of its own,
  if any.
\<close>

definition updateSale ::
  "runtime \<Rightarrow> nat option \<Rightarrow> int \<Rightarrow> sale_update_body \<Rightarrow> db
     \<Rightarrow> (http_error + sale option) \<times> db" where
  "updateSale rt fault sid b d =
    (if fault = Some 1 \<or> \<not> can_bind (ub_paymentStatus b)
        \<or> \<not> can_bind (ub_paymentMethod b) \<or> \<not> can_bind (ub_notes b)
     then (Inl ServerError, d)
     else if list_ex (\<lambda>s. sale_id s = sid) (sales d)
             \<and> \<not> check_in payment_statuses (text_affinity rt (bound (ub_paymentStatus b)))
     then (Inl ServerError, d)
     else
       let d1 = d\<lparr>sales := map (set_payment rt sid b) (sales d)\<rparr>
       in if fault = Some 2 then (Inl ServerError, d1)
          else (Inr (find (\<lambda>s. sale_id s = sid) (sales d1)), d1))"

text \<open>
  DELETE \<^verbatim>\<open>/api/sales/:id\<close>: the sale is read (statement 1), the counter is lowered
  by the stored total when there is a row (statement 2), then the row is deleted
  (statement 3); an unknown id is answered with success as well. \<open>fault\<close> is the
  statement at which the storage engine raises an error of its own, if any.
\<close>

definition debit_customer :: "runtime \<Rightarrow> sale \<Rightarrow> db \<Rightarrow> db" where
  \<comment> \<open>\<^verbatim>\<open>.run(sale.total_amount, sale.customer_id)\<close>, both as read from the row\<close>
  "debit_customer rt s d =
     d\<lparr>customers := adjust_purchases rt ''-'' (bound (js_of_sql (total_amount s)))
                       (bound (js_of_sql (customer_id s))) (customers d)\<rparr>"

definition deleteSale :: "runtime \<Rightarrow> nat option \<Rightarrow> int \<Rightarrow> db \<Rightarrow> (http_error + unit) \<times> db" where
  "deleteSale rt fault sid d =
    (if fault = Some 1 then (Inl ServerError, d)
     else
       case find (\<lambda>s. sale_id s = sid) (sales d) of
         None \<Rightarrow>
           if fault = Some 3 then (Inl ServerError, d)
           else (Inr (), d\<lparr>sales := filter (\<lambda>s. sale_id s \<noteq> sid) (sales d)\<rparr>)
       | Some s \<Rightarrow>
           if fault = Some 2 then (Inl ServerError, d)
           else
             let d1 = debit_customer rt s d in
             if fault = Some 3 then (Inl ServerError, d1)
             else (Inr (), d1\<lparr>sales := filter (\<lambda>s. sale_id s \<noteq> sid) (sales d1)\<rparr>))"

datatype sale_op =
    RecordSale "nat option" int nat sale_body
  | UpdateSale "nat option" int sale_update_body
  | DeleteSale "nat option" int

fun sale_step :: "runtime \<Rightarrow> sale_op \<Rightarrow> db \<Rightarrow> db" where
  "sale_step rt (RecordSale fault uid now b) d = snd (recordSale rt fault uid now b d)"
| "sale_step rt (UpdateSale fault sid b) d = snd (updateSale rt fault sid b d)"
| "sale_step rt (DeleteSale fault sid) d = snd (deleteSale rt fault sid d)"

definition run_sales :: "runtime \<Rightarrow> sale_op list \<Rightarrow> db \<Rightarrow> db" where
  "run_sales rt ops d = fold (sale_step rt) ops d"


subsection \<open>Poultry batches and health records (\<^verbatim>\<open>routes/poultry.ts\<close>)\<close>




















subsection \<open>Orders (\<^verbatim>\<open>routes/orders.ts\<close>)\<close>

definition digits36 :: string where
  "digits36 = ''0123456789abcdefghijklmnopqrstuvwxyz''"

text \<open>\<^verbatim>\<open>Number.prototype.toString(36)\<close> on a non-negative integer.\<close>

fun to_base36 :: "nat \<Rightarrow> string" where
  "to_base36 n =
     (if n < 36 then [digits36 ! n] else to_base36 (n div 36) @ [digits36 ! (n mod 36)])"

declare to_base36.simps [simp del]

text \<open>\<^verbatim>\<open>toUpperCase\<close> on the characters that occur here: the letters a to z are raised,
  every other character stays.\<close>

definition to_upper :: "char \<Rightarrow> char" where
  "to_upper c =
     (case map_of (zip ''abcdefghijklmnopqrstuvwxyz'' ''ABCDEFGHIJKLMNOPQRSTUVWXYZ'') c of
        None \<Rightarrow> c | Some u \<Rightarrow> u)"

definition toUpperCase :: "string \<Rightarrow> string" where
  "toUpperCase s = map to_upper s"

text \<open>
  \<open>now\<close> is \<^verbatim>\<open>Date.now()\<close>, the milliseconds since the epoch. \<open>rnd\<close> is the
  string \<^verbatim>\<open>Math.random().toString(36)\<close>: \<^verbatim>\<open>0\<close>, or \<^verbatim>\<open>0.\<close> followed by the
  base-36 digits that the runtime prints for the fraction (a single digit for the number
  0.5, which prints as \<^verbatim>\<open>0.i\<close>). \<^verbatim>\<open>substring(2, 6)\<close> keeps the characters at the
  positions 2 to 5 that exist.
\<close>

definition generateOrderNumber :: "nat \<Rightarrow> string \<Rightarrow> string" where
  "generateOrderNumber now rnd =
     (let prefix = ''CFM'';
          timestamp = toUpperCase (to_base36 now);
          random = toUpperCase (take 4 (drop 2 rnd))
      in prefix @ ''-'' @ timestamp @ ''-'' @ random)"



















subsection \<open>Recent activities (GET \<^verbatim>\<open>/api/dashboard/activities\<close>)\<close>

text \<open>
  A row returned by the driver is an object from column names to values; reading a
  property the object does not have gives \<^verbatim>\<open>undefined\<close>, here \<open>None\<close>.
\<close>

type_synonym activity = "(string \<times> sqlval) list"

definition property :: "activity \<Rightarrow> string \<Rightarrow> sqlval option" where
  "property r k = map_of r k"

definition num_or :: "int option \<Rightarrow> int \<Rightarrow> int" where
  \<comment> \<open>\<^verbatim>\<open>x || d\<close> on the result of \<^verbatim>\<open>parseInt\<close>, \<open>None\<close> for NaN\<close>
  "num_or x d = (case x of None \<Rightarrow> d | Some n \<Rightarrow> if n = 0 then d else n)"

text \<open>
  \<^verbatim>\<open>ORDER BY created_at DESC\<close>: the newest first, rows of equal time in table order
  (SQL leaves their order open). \<^verbatim>\<open>LIMIT n\<close> with a negative \<open>n\<close> is no limit.
\<close>

fun insert_desc :: "('a \<Rightarrow> nat) \<Rightarrow> 'a \<Rightarrow> 'a list \<Rightarrow> 'a list" where
  "insert_desc k x [] = [x]"
| "insert_desc k x (y # ys) = (if k y \<le> k x then x # y # ys else y # insert_desc k x ys)"

definition order_by_desc :: "('a \<Rightarrow> nat) \<Rightarrow> 'a list \<Rightarrow> 'a list" where
  "order_by_desc k xs = foldr (insert_desc k) xs []"

definition sql_limit :: "int \<Rightarrow> 'a list \<Rightarrow> 'a list" where
  "sql_limit n xs = (if n < 0 then xs else take (nat n) xs)"

definition egg_activity :: "egg_record \<Rightarrow> activity" where
  "egg_activity e =
     [(''type'', SText ''egg''), (''id'', SNum (Fin (of_int (egg_id e)))),
      (''timestamp'', egg_date e), (''value'', eggs_collected e),
      (''description'', SText ''Eggs collected'')]"

definition sale_activity :: "db \<Rightarrow> sale \<Rightarrow> activity" where
  \<comment> \<open>\<^verbatim>\<open>LEFT JOIN customers\<close>: the description is NULL when the sale has no customer row\<close>
  "sale_activity d s =
     [(''type'', SText ''sale''), (''id'', SNum (Fin (of_int (sale_id s)))),
      (''timestamp'', sale_date s), (''value'', total_amount s),
      (''description'',
         (case find (\<lambda>c. customer_id s = SNum (Fin (of_int (cust_id c)))) (customers d) of
            None \<Rightarrow> SNull
          | Some c \<Rightarrow> SText (cust_name c @ '' - '' @ sale_type s)))]"

definition health_activity :: "db \<Rightarrow> health_record \<Rightarrow> activity" where
  "health_activity d h =
     [(''type'', SText ''health''), (''id'', SNum (Fin (of_int (hr_id h)))),
      (''timestamp'', hr_date h), (''value'', SText (record_type h)),
      (''description'',
         (case find (\<lambda>b. hr_batch_id h = SNum (Fin (of_int (batch_id b)))) (poultry_batches d) of
            None \<Rightarrow> SNull
          | Some b \<Rightarrow> SText (batch_name b @ '' - '' @ hr_description h)))]"

text \<open>
  \<^verbatim>\<open>new Date(v).getTime()\<close>, with \<open>None\<close> for NaN: an undefined argument gives an
  invalid date, null gives 0, a number is taken as the time value (cut to a whole number,
  invalid beyond 8.64e15 milliseconds), and a string goes to the date parser of the
  runtime, the parameter \<open>parse\<close>.
\<close>

fun time_clip :: "jsnum \<Rightarrow> int option" where
  "time_clip (Fin r) =
     (if \<bar>r\<bar> \<le> 8640000000000000 then Some (if 0 \<le> r then \<lfloor>r\<rfloor> else \<lceil>r\<rceil>) else None)"
| "time_clip n = None"

definition getTime :: "(string \<Rightarrow> int option) \<Rightarrow> sqlval option \<Rightarrow> int option" where
  "getTime parse v =
     (case v of None \<Rightarrow> None | Some SNull \<Rightarrow> Some 0 | Some (SNum n) \<Rightarrow> time_clip n
      | Some (SText s) \<Rightarrow> parse s)"

definition compare_activities ::
  "(string \<Rightarrow> int option) \<Rightarrow> activity \<Rightarrow> activity \<Rightarrow> int option" where
  \<comment> \<open>\<^verbatim>\<open>new Date(b.date).getTime() - new Date(a.date).getTime()\<close>; NaN when either is NaN\<close>
  "compare_activities parse a b =
     (case (getTime parse (property b ''date''), getTime parse (property a ''date'')) of
        (Some x, Some y) \<Rightarrow> Some (x - y)
      | _ \<Rightarrow> None)"

text \<open>
  \<^verbatim>\<open>Array.prototype.sort\<close> with a comparator: a stable sort in which an element moves
  behind another only when the comparator is positive on them; NaN counts as 0.
\<close>

fun js_insert :: "('a \<Rightarrow> 'a \<Rightarrow> int option) \<Rightarrow> 'a \<Rightarrow> 'a list \<Rightarrow> 'a list" where
  "js_insert cmp x [] = [x]"
| "js_insert cmp x (y # ys) =
     (if (case cmp x y of None \<Rightarrow> False | Some v \<Rightarrow> 0 < v)
      then y # js_insert cmp x ys else x # y # ys)"

definition js_sort :: "('a \<Rightarrow> 'a \<Rightarrow> int option) \<Rightarrow> 'a list \<Rightarrow> 'a list" where
  "js_sort cmp xs = foldr (js_insert cmp) xs []"

definition js_slice0 :: "int \<Rightarrow> 'a list \<Rightarrow> 'a list" where
  \<comment> \<open>\<^verbatim>\<open>slice(0, n)\<close>: a negative \<open>n\<close> counts from the end\<close>
  "js_slice0 n xs = (if n < 0 then take (nat (int (length xs) + n)) xs else take (nat n) xs)"

text \<open>
  \<open>q\<close> is \<^verbatim>\<open>parseInt(req.query.limit)\<close>, \<open>None\<close> when the parameter is missing or
  not a number.
\<close>

definition activities :: "(string \<Rightarrow> int option) \<Rightarrow> int option \<Rightarrow> db \<Rightarrow> activity list" where
  "activities parse q d =
    (let limit = num_or q 20;
         recentEggs = map egg_activity
            (sql_limit limit (order_by_desc egg_created_at (egg_production d)));
         recentSales = map (sale_activity d)
            (sql_limit limit (order_by_desc sale_created_at (sales d)));
         recentHealth = map (health_activity d)
            (sql_limit limit (order_by_desc hr_created_at (health_records d)));
         sorted = js_sort (compare_activities parse) (recentEggs @ recentSales @ recentHealth)
     in js_slice0 limit sorted)"
subsection \<open>Properties of the sales ledger\<close>


text \<open>
  The equation a persisted sale has to satisfy, in the arithmetic of the program: the
  stored total is the double product of the stored quantity and unit price.
\<close>

definition sale_total_ok :: "runtime \<Rightarrow> sale \<Rightarrow> bool" where
  "sale_total_ok rt s =
     (total_amount s
      = bound (JNum (jsmul (col_number rt (quantity s)) (col_number rt (unit_price s)))))"

text \<open>A request that passes the presence test, binds and satisfies the table's constraints.\<close>

definition sale_accepted :: "runtime \<Rightarrow> int \<Rightarrow> nat \<Rightarrow> sale_body \<Rightarrow> db \<Rightarrow> bool" where
  "sale_accepted rt uid now b d =
     (truthy (sb_customerId b) \<and> truthy (sb_saleDate b) \<and> truthy (sb_saleType b)
      \<and> truthy (sb_quantity b) \<and> truthy (sb_unitPrice b)
      \<and> list_all can_bind (sale_params rt b)
      \<and> sale_constraints (new_sale rt uid now b d) d)"

text \<open>
  The rational a column denotes (0 unless it is a finite number); the sales that refer to
  a customer; the exact sum of their totals; the counters stored for the customer id; and
  their agreement.
\<close>

fun sql_exact :: "sqlval \<Rightarrow> rat" where
  "sql_exact (SNum n) = exact n"
| "sql_exact v = 0"

definition sale_of :: "runtime \<Rightarrow> int \<Rightarrow> sale \<Rightarrow> bool" where
  "sale_of rt cid s = id_matches rt cid (customer_id s)"

definition ledger_sum :: "runtime \<Rightarrow> db \<Rightarrow> int \<Rightarrow> rat" where
  "ledger_sum rt d cid = (\<Sum>s\<leftarrow>filter (sale_of rt cid) (sales d). sql_exact (total_amount s))"

definition purchases_of :: "db \<Rightarrow> int \<Rightarrow> sqlval list" where
  "purchases_of d cid = map total_purchases (filter (\<lambda>c. cust_id c = cid) (customers d))"

definition ledger_ok :: "runtime \<Rightarrow> db \<Rightarrow> int \<Rightarrow> bool" where
  "ledger_ok rt d cid =
     list_all (\<lambda>t. t = SNum (Fin (ledger_sum rt d cid))) (purchases_of d cid)"


fun op_total :: "runtime \<Rightarrow> sale_op \<Rightarrow> jsnum" where
  "op_total rt (RecordSale fault uid now b) = totalAmount rt b"
| "op_total rt x = Fin 0"

definition whole :: "jsnum \<Rightarrow> bool" where
  "whole n = (is_fin n \<and> exact n = of_int \<lfloor>exact n\<rfloor>)"

definition magnitude :: "jsnum \<Rightarrow> rat" where
  "magnitude n = \<bar>exact n\<bar>"

text \<open>
  A sequence of sale operations whose totals are whole numbers with magnitudes that add
  up to at most \<open>2^53 - 1\<close>: every sum or difference of them is exact in doubles.
\<close>

definition safe_totals :: "runtime \<Rightarrow> sale_op list \<Rightarrow> bool" where
  "safe_totals rt ops =
     (list_all (\<lambda>x. whole (op_total rt x)) ops
      \<and> (\<Sum>x\<leftarrow>ops. magnitude (op_total rt x)) \<le> 9007199254740991)"




text \<open>
  A sample runtime, defined on the strings and numbers of the samples (\<^verbatim>\<open>"0"\<close> and
  \<^verbatim>\<open>"2"\<close> read as numbers by both JavaScript and SQLite, the array \<^verbatim>\<open>[2]\<close> printing as
  \<^verbatim>\<open>2\<close>), a small database and a request, used to run the handlers on concrete input.
\<close>

definition sample_rt :: runtime where
  "sample_rt = \<lparr>
     str_number = (\<lambda>s. case map_of [(''0'', Fin 0), (''2'', Fin 2)] s of
                         None \<Rightarrow> NaN | Some n \<Rightarrow> n),
     obj_text = (\<lambda>j. if j = ''[2]'' then ''2'' else ''[object Object]''),
     sql_numeric = map_of [(''0'', Fin 0), (''2'', Fin 2)],
     num_text = (\<lambda>n. if n = Fin 5 then ''5.0'' else ''0.0''),
     text_arith = (\<lambda>oper a b. SNull) \<rparr>"

definition farm0 :: db where
  "farm0 = \<lparr> users = [1],
     customers = [\<lparr>cust_id = 1, cust_name = ''Amina'', total_purchases = SNum (Fin 0)\<rparr>,
                  \<lparr>cust_id = 2, cust_name = ''Okello'', total_purchases = SNum (Fin 6000)\<rparr>],
     sales = [\<lparr> sale_id = 1, customer_id = SNum (Fin 2), sale_date = SText ''2024-05-01'',
                 sale_type = ''birds'', quantity = SNum (Fin 2), unit_price = SNum (Fin 3000),
                 total_amount = SNum (Fin 6000), payment_status = SText ''paid'',
                 payment_method = SText ''cash'', sale_notes = SNull,
                 sale_recorded_by = 1, sale_created_at = 50 \<rparr>],
     sales_seq = 1, poultry_batches = [], batches_seq = 0, health_records = [],
     health_seq = 0, egg_production = [], orders = [], orders_seq = 0,
     foreign_keys = True \<rparr>"

definition sale_request :: "jsval \<Rightarrow> jsval \<Rightarrow> sale_body" where
  "sale_request q p = \<lparr> sb_customerId = JNum (Fin 1), sb_saleDate = JStr ''2024-06-01'',
     sb_saleType = JStr ''eggs'', sb_quantity = q, sb_unitPrice = p,
     sb_paymentStatus = JUndef, sb_paymentMethod = JUndef, sb_notes = JUndef,
     sb_totalAmount = JNum (Fin 1) \<rparr>"

definition eggs_body :: "rat \<Rightarrow> sale_body" where
  "eggs_body q = sale_request (JNum (Fin q)) (JNum (Fin 1000))"


subsection \<open>Properties of the head count\<close>









subsection \<open>Properties of orders\<close>







text \<open>
  The pattern \<^verbatim>\<open>PREFIX-[A-Z0-9]+-[A-Z0-9]{4}\<close> with the prefix \<^verbatim>\<open>CFM\<close>: three fields
  separated by dashes.
\<close>

fun split_on :: "char \<Rightarrow> string \<Rightarrow> string list" where
  "split_on c [] = [[]]"
| "split_on c (x # xs) =
     (if x = c then [] # split_on c xs
      else (case split_on c xs of [] \<Rightarrow> [[x]] | w # ws \<Rightarrow> (x # w) # ws))"

definition is_AZ09 :: "char \<Rightarrow> bool" where
  "is_AZ09 c = (c \<in> set ''0123456789ABCDEFGHIJKLMNOPQRSTUVWXYZ'')"

definition is_digit36 :: "char \<Rightarrow> bool" where
  "is_digit36 c = (c \<in> set digits36)"

definition order_number_pattern :: "string \<Rightarrow> bool" where
  "order_number_pattern s =
     (let ws = split_on (CHR ''-'') s
      in length ws = 3 \<and> ws ! 0 = ''CFM''
         \<and> ws ! 1 \<noteq> [] \<and> list_all is_AZ09 (ws ! 1)
         \<and> length (ws ! 2) = 4 \<and> list_all is_AZ09 (ws ! 2))"






subsection \<open>Properties of the activity feed\<close>

text \<open>The times of the rows' \<open>timestamp\<close> column, and a feed that is newest first.\<close>

definition timestamps :: "(string \<Rightarrow> int option) \<Rightarrow> activity list \<Rightarrow> int list" where
  "timestamps parse rs =
     map (\<lambda>r. case getTime parse (property r ''timestamp'') of None \<Rightarrow> 0 | Some t \<Rightarrow> t) rs"

definition newest_first :: "(string \<Rightarrow> int option) \<Rightarrow> activity list \<Rightarrow> bool" where
  "newest_first parse rs = sorted_wrt (\<lambda>a b. b \<le> a) (timestamps parse rs)"

text \<open>The date parser on the three dates of the sample: midnight UTC in milliseconds.\<close>

definition sample_dates :: "string \<Rightarrow> int option" where
  "sample_dates = map_of [(''2024-01-01'', 1704067200000), (''2024-03-01'', 1709251200000),
                          (''2024-05-01'', 1714521600000)]"

definition feed0 :: db where
  "feed0 = farm0\<lparr>
     poultry_batches := [\<lparr> batch_id = 1, batch_name = ''Layers A'', bird_type = ''layer'',
        initial_count = SNum (Fin 500), current_count = SNum (Fin 498),
        date_acquired = SText ''2023-12-01'',
        batch_source = SNull, cost_per_bird = SNull, batch_notes = SNull,
        batch_status = ''active'', batch_created_by = 1, batch_created_at = 5,
        batch_updated_at = 30 \<rparr>],
     batches_seq := 1,
     egg_production := [\<lparr> egg_id = 1, egg_batch_id = SNum (Fin 1),
        egg_date = SText ''2024-01-01'', eggs_collected = SNum (Fin 300),
        broken_eggs = SNum (Fin 4), egg_created_at = 10 \<rparr>],
     health_records := [\<lparr> hr_id = 1, hr_batch_id = SNum (Fin 1), hr_date = SText ''2024-03-01'',
        record_type = ''mortality'', hr_description = ''found dead'',
        mortality_count = SNum (Fin 2), hr_cost = SNum (Fin 0), administered_by = SNull,
        hr_notes = SNull, hr_recorded_by = 1, hr_created_at = 30 \<rparr>],
     health_seq := 1 \<rparr>"

section \<open>Verification\<close>

subsection \<open>Exact arithmetic on safe whole numbers\<close>

lemma ilog2_nonneg: "0 \<le> ilog2 n"
  by (induction n rule: ilog2.induct) (simp add: ilog2.simps)

lemma ilog2_bound: "n < 2 ^ Suc j \<Longrightarrow> ilog2 n \<le> int j"
proof (induction j arbitrary: n)
  case 0
  then show ?case by (simp add: ilog2.simps)
next
  case (Suc j)
  show ?case
  proof (cases "n < 2")
    case True
    then show ?thesis by (simp add: ilog2.simps)
  next
    case False
    have "n div 2 < 2 ^ Suc j" using Suc.prems by simp
    then have "ilog2 (n div 2) \<le> int j" by (rule Suc.IH)
    with False show ?thesis by (simp add: ilog2.simps[of n])
  qed
qed

lemma round_half_even_int: "round_half_even (of_int k) = k"
  by (simp add: round_half_even_def)

lemma fl_of_int:
  assumes "\<bar>k\<bar> \<le> 9007199254740991"
  shows "fl (of_int k) = Fin (of_int k)"
proof (cases "k = 0")
  case True
  then show ?thesis by (simp add: fl_def)
next
  case False
  let ?x = "of_int k :: rat"
  have abs: "\<bar>?x\<bar> = of_int \<bar>k\<bar>" by simp
  have one: "1 \<le> \<bar>?x\<bar>" using False unfolding abs by (simp del: of_int_abs)
  have ex: "exponent \<bar>?x\<bar> = ilog2 \<bar>k\<bar>"
    using one unfolding exponent_def abs by (simp del: of_int_abs)
  have "\<bar>k\<bar> < 2 ^ Suc 52" using assms by simp
  then have up: "ilog2 \<bar>k\<bar> \<le> 52" using ilog2_bound[of "\<bar>k\<bar>" 52] by simp
  have lo: "0 \<le> ilog2 \<bar>k\<bar>" by (rule ilog2_nonneg)
  define j where "j = nat (52 - ilog2 \<bar>k\<bar>)"
  have e: "max (exponent \<bar>?x\<bar>) (- 1022) = ilog2 \<bar>k\<bar>" using ex lo by simp
  have u: "pow2 (ilog2 \<bar>k\<bar> - 52) = 1 / 2 ^ j"
  proof (cases "ilog2 \<bar>k\<bar> = 52")
    case True
    then show ?thesis by (simp add: pow2_def j_def)
  next
    case False
    with up have "ilog2 \<bar>k\<bar> - 52 < 0" by simp
    then show ?thesis by (simp add: pow2_def j_def)
  qed
  have q: "?x / (1 / 2 ^ j) = of_int (k * 2 ^ j)" by simp
  have y: "of_int (round_half_even (?x / (1 / 2 ^ j))) * (1 / 2 ^ j) = ?x"
    unfolding q round_half_even_int by simp
  have "\<bar>?x\<bar> \<le> 9007199254740991" using assms unfolding abs
    by (metis of_int_le_iff of_int_numeral)
  also have "\<dots> < pow2 1024" by (simp add: pow2_def)
  finally have small: "\<not> pow2 1024 \<le> \<bar>?x\<bar>" by simp
  show ?thesis
    using False small
    by (simp only: fl_def Let_def e u y of_int_eq_0_iff if_False)
qed


lemma floor_div_numeral_rat:
  "\<lfloor>(numeral a :: rat) / numeral b\<rfloor> = numeral a div numeral b"
  "\<lfloor>- (numeral a :: rat) / numeral b\<rfloor> = - numeral a div numeral b"
  using floor_divide_of_int_eq[of "numeral a" "numeral b", where ?'a = rat]
        floor_divide_of_int_eq[of "- numeral a" "numeral b", where ?'a = rat]
  by simp_all

lemmas fl_eval = fl_def exponent_def ilog2.simps pow2_def round_half_even_def Let_def
  floor_div_numeral_rat


lemma fl_tenth: "fl (1 / 10) = Fin (3602879701896397 / 36028797018963968)"
  by (simp add: fl_eval)


lemma fl_numeral:
  "(numeral n :: int) \<le> 9007199254740991 \<Longrightarrow> fl (numeral n) = Fin (numeral n)"
  "(numeral n :: int) \<le> 9007199254740991 \<Longrightarrow> fl (- numeral n) = Fin (- numeral n)"
  "fl 0 = Fin 0" "fl 1 = Fin 1"
  using fl_of_int[of "numeral n"] fl_of_int[of "- numeral n"] fl_of_int[of 0] fl_of_int[of 1]
  by simp_all


subsection \<open>Row ids\<close>




subsection \<open>Values\<close>









subsection \<open>The ledger\<close>






lemma sum_abs_nonneg: "0 \<le> (\<Sum>s\<leftarrow>xs. \<bar>f s :: rat\<bar>)"
  by (induction xs) auto













lemma updateSale_cases:
  "snd (updateSale rt f sid b d) = d \<or>
   snd (updateSale rt f sid b d) = d\<lparr>sales := map (set_payment rt sid b) (sales d)\<rparr>"
  by (simp add: updateSale_def Let_def)


lemma set_payment_sum:
  "(\<Sum>s\<leftarrow>filter (sale_of rt cid) (map (set_payment rt sid b) xs). (f (total_amount s) :: rat))
   = (\<Sum>s\<leftarrow>filter (sale_of rt cid) xs. f (total_amount s))"
  by (induction xs) (simp_all add: set_payment_def sale_of_def)










lemmas sale_eval = farm0_def sale_request_def eggs_body_def recordSale_def updateSale_def
  deleteSale_def new_sale_def sale_params_def totalAmount_def sale_constraints_def
  insert_sale_def credit_customer_def debit_customer_def adjust_purchases_def set_payment_def
  references_def next_rowid_def js_or_def bound_def text_of_def id_matches_def sale_types_def
  payment_statuses_def run_sales_def ledger_ok_def ledger_sum_def purchases_of_def
  sale_total_ok_def sale_of_def col_number_def jssub_def sale_accepted_def safe_totals_def
  whole_def magnitude_def sample_rt_def fl_numeral Let_def




text \<open>
  C2. RecordSale is not atomic. Take a request that passes the presence test, whose
  parameters the driver binds and whose row satisfies the constraints of the table. When
  the UPDATE of the customer fails after the INSERT (storage fault at statement 2), the
  caller gets a server error, the new sale is in the table, and no customer row has
  changed: the insert stays committed without the increment of the counter.
\<close>

theorem recordSale_not_atomic:
  assumes "truthy (sb_customerId b)" and "truthy (sb_saleDate b)"
    and "truthy (sb_saleType b)" and "truthy (sb_quantity b)"
    and "truthy (sb_unitPrice b)"
    and "list_all can_bind (sale_params rt b)"
    and "sale_constraints (new_sale rt uid now b d) d"
  shows "recordSale rt (Some 2) uid now b d
           = (Inl ServerError, insert_sale (new_sale rt uid now b d) d)
         \<and> sales (insert_sale (new_sale rt uid now b d) d) = sales d @ [new_sale rt uid now b d]
         \<and> customers (insert_sale (new_sale rt uid now b d) d) = customers d"
  using assms by (simp add: recordSale_def insert_sale_def Let_def)

text \<open>
  On the sample database: the sale of 10 trays at 1000 is stored with total 10000 while
  the counter of customer 1 stays 0 and its ledger sum is 10000.
\<close>

theorem recordSale_not_atomic_witness:
  "fst (recordSale sample_rt (Some 2) 1 100 (eggs_body 10) farm0) = Inl ServerError
   \<and> map total_amount (sales (snd (recordSale sample_rt (Some 2) 1 100 (eggs_body 10) farm0)))
      = [SNum (Fin 6000), SNum (Fin 10000)]
   \<and> purchases_of (snd (recordSale sample_rt (Some 2) 1 100 (eggs_body 10) farm0)) 1
      = [SNum (Fin 0)]
   \<and> ledger_sum sample_rt (snd (recordSale sample_rt (Some 2) 1 100 (eggs_body 10) farm0)) 1
      = 10000"
  using recordSale_not_atomic [of "eggs_body 10" sample_rt 1 100 farm0]
  by (simp add: sale_eval)

subsection \<open>Sale totals\<close>




lemma set_payment_total_ok: "sale_total_ok rt (set_payment rt' sid b s) = sale_total_ok rt s"
  by (simp add: sale_total_ok_def set_payment_def)





lemma recordSale_accepts:
  assumes "sale_accepted rt uid now b d"
  shows "recordSale rt None uid now b d
         = (Inr (new_sale rt uid now b d),
            credit_customer rt b (insert_sale (new_sale rt uid now b d) d))"
  using assms by (simp add: sale_accepted_def recordSale_def Let_def)






subsection \<open>Validation of a sale\<close>

lemma recordSale_rejects_falsy:
  assumes "\<not> truthy (sb_quantity b) \<or> \<not> truthy (sb_unitPrice b)"
  shows "recordSale rt fault uid now b d = (Inl BadRequest, d)"
  using assms by (auto simp: recordSale_def)

lemma recordSale_negative_accepted:
  assumes "sb_quantity b = JNum (Fin q) \<and> q < 0 \<and> sale_accepted rt uid now b d"
  shows "recordSale rt None uid now b d
           = (Inr (new_sale rt uid now b d),
              credit_customer rt b (insert_sale (new_sale rt uid now b d) d))
         \<and> sales (credit_customer rt b (insert_sale (new_sale rt uid now b d) d))
             = sales d @ [new_sale rt uid now b d]
         \<and> quantity (new_sale rt uid now b d) = SNum (Fin q)"
  using assms
  by (simp add: recordSale_accepts credit_customer_def insert_sale_def new_sale_def bound_def)

text \<open>
  C8. The guard of RecordSale is the presence test \<^verbatim>\<open>!quantity || !unitPrice\<close>: a
  request whose quantity or unit price is falsy (absent, null, the number 0, the empty
  string) is answered with a validation error and the database is unchanged. It has no
  range check: a request with a negative quantity that is otherwise acceptable is answered
  with the new row, and the row, with that negative quantity, is in the table.
\<close>

theorem recordSale_validation:
  "(\<not> truthy (sb_quantity b) \<or> \<not> truthy (sb_unitPrice b)
      \<longrightarrow> recordSale rt f uid now b d = (Inl BadRequest, d))
   \<and> (sb_quantity b = JNum (Fin q) \<and> q < 0 \<and> sale_accepted rt uid now b d \<longrightarrow>
        recordSale rt None uid now b d
           = (Inr (new_sale rt uid now b d),
              credit_customer rt b (insert_sale (new_sale rt uid now b d) d))
         \<and> sales (credit_customer rt b (insert_sale (new_sale rt uid now b d) d))
             = sales d @ [new_sale rt uid now b d]
         \<and> quantity (new_sale rt uid now b d) = SNum (Fin q))"
proof -
  have A: "\<not> truthy (sb_quantity b) \<or> \<not> truthy (sb_unitPrice b)
      \<longrightarrow> recordSale rt f uid now b d = (Inl BadRequest, d)"
    by (rule impI, rule recordSale_rejects_falsy)
  have B: "sb_quantity b = JNum (Fin q) \<and> q < 0 \<and> sale_accepted rt uid now b d \<longrightarrow>
        recordSale rt None uid now b d
           = (Inr (new_sale rt uid now b d),
              credit_customer rt b (insert_sale (new_sale rt uid now b d) d))
         \<and> sales (credit_customer rt b (insert_sale (new_sale rt uid now b d) d))
             = sales d @ [new_sale rt uid now b d]
         \<and> quantity (new_sale rt uid now b d) = SNum (Fin q)"
    by (rule impI, rule recordSale_negative_accepted)
  from A B show ?thesis by (rule conjI)
qed

text \<open>
  On the sample database: quantity 0 is rejected and nothing is written; quantity -5 at
  1000 is stored with total -5000, and the counter of customer 1 goes to -5000.
\<close>

theorem recordSale_validation_witness:
  "recordSale sample_rt None 1 100 (eggs_body 0) farm0 = (Inl BadRequest, farm0)
   \<and> fst (recordSale sample_rt None 1 100 (eggs_body (- 5)) farm0)
     = Inr (new_sale sample_rt 1 100 (eggs_body (- 5)) farm0)
   \<and> map (\<lambda>s. (quantity s, total_amount s))
        (sales (snd (recordSale sample_rt None 1 100 (eggs_body (- 5)) farm0)))
     = [(SNum (Fin 2), SNum (Fin 6000)), (SNum (Fin (- 5)), SNum (Fin (- 5000)))]
   \<and> purchases_of (snd (recordSale sample_rt None 1 100 (eggs_body (- 5)) farm0)) 1
     = [SNum (Fin (- 5000))]"
proof -
  have z: "\<not> truthy (sb_quantity (eggs_body 0)) \<or> \<not> truthy (sb_unitPrice (eggs_body 0))"
    by (simp add: eggs_body_def sale_request_def)
  have q: "sb_quantity (eggs_body (- 5)) = JNum (Fin (- 5)) \<and> (- 5 :: rat) < 0
           \<and> sale_accepted sample_rt 1 100 (eggs_body (- 5)) farm0"
    by (simp add: sale_eval)
  have cols: "map (\<lambda>s. (quantity s, total_amount s))
        (sales (snd (recordSale sample_rt None 1 100 (eggs_body (- 5)) farm0)))
     = [(SNum (Fin 2), SNum (Fin 6000)), (SNum (Fin (- 5)), SNum (Fin (- 5000)))]"
    by (simp add: sale_eval)
  have p: "purchases_of (snd (recordSale sample_rt None 1 100 (eggs_body (- 5)) farm0)) 1
     = [SNum (Fin (- 5000))]"
    by (simp add: sale_eval)
  from recordSale_validation [where b = "eggs_body 0" and rt = sample_rt and f = None
         and uid = 1 and now = 100 and d = farm0] z
  have r0: "recordSale sample_rt None 1 100 (eggs_body 0) farm0 = (Inl BadRequest, farm0)"
    by blast
  from recordSale_validation [where b = "eggs_body (- 5)" and rt = sample_rt and q = "- 5"
         and uid = 1 and now = 100 and d = farm0] q
  have "fst (recordSale sample_rt None 1 100 (eggs_body (- 5)) farm0)
     = Inr (new_sale sample_rt 1 100 (eggs_body (- 5)) farm0)"
    by simp
  with r0 cols p show ?thesis by simp
qed

text \<open>
  The quantity \<^verbatim>\<open>"0"\<close> sent as a string is truthy: the sale is stored with quantity 0
  and total 0.
\<close>

lemma recordSale_string_zero_accepted:
  "truthy (JStr ''0'')
   \<and> map (\<lambda>s. (quantity s, total_amount s))
        (sales (snd (recordSale sample_rt None 1 100
                      (sale_request (JStr ''0'') (JNum (Fin 1000))) farm0)))
     = [(SNum (Fin 2), SNum (Fin 6000)), (SNum (Fin 0), SNum (Fin 0))]"
  by (simp add: sale_eval)

subsection \<open>Frame of a sale update\<close>

lemma set_payment_blank:
  "(set_payment rt sid b s)\<lparr>payment_status := SNull, payment_method := SNull, sale_notes := SNull\<rparr>
   = s\<lparr>payment_status := SNull, payment_method := SNull, sale_notes := SNull\<rparr>"
  by (simp add: set_payment_def)

lemma updateSale_ledger_sum:
  "ledger_sum rt (snd (updateSale rt f sid b d)) cid = ledger_sum rt d cid"
  using updateSale_cases[of rt f sid b d]
    set_payment_sum[where f = "\<lambda>v. sql_exact v" and xs = "sales d" and rt = rt and cid = cid
      and sid = sid and b = b]
  by (auto simp: ledger_sum_def)

lemma updateSale_customers: "customers (snd (updateSale rt f sid b d)) = customers d"
  using updateSale_cases[of rt f sid b d] by auto

lemma updateSale_others: "(snd (updateSale rt f sid b d))\<lparr>sales := sales d\<rparr> = d"
  using updateSale_cases[of rt f sid b d] by auto

lemma updateSale_blank:
  "map (\<lambda>s. s\<lparr>payment_status := SNull, payment_method := SNull, sale_notes := SNull\<rparr>)
       (sales (snd (updateSale rt f sid b d)))
   = map (\<lambda>s. s\<lparr>payment_status := SNull, payment_method := SNull, sale_notes := SNull\<rparr>) (sales d)"
  using updateSale_cases[of rt f sid b d] by (auto simp: set_payment_blank)

lemma updateSale_total_ok:
  "list_all (sale_total_ok rt) (sales (snd (updateSale rt f sid b d)))
   = list_all (sale_total_ok rt) (sales d)"
  using updateSale_cases[of rt f sid b d] by (auto simp: list_all_iff set_payment_total_ok)

text \<open>
  C10. A sale update, whatever its arguments and whether or not the storage engine
  interrupts it, changes nothing outside the table of sales, changes no customer, and
  leaves every sale as it was up to the three columns \<open>payment_status\<close>,
  \<open>payment_method\<close> and \<open>notes\<close>; in particular the id, the customer, the
  quantity, the unit price and the total of every sale are unchanged, and so are the ledger
  sum of every customer, the ledger invariant and the sale-total equation. When the three
  fields bind and the payment status passes the CHECK, the update is carried out, and the
  sale with the id gets the three fields of the body, NULL for a field the body omits.
\<close>

theorem updateSale_frame:
  "(snd (updateSale rt f sid b d))\<lparr>sales := sales d\<rparr> = d
   \<and> customers (snd (updateSale rt f sid b d)) = customers d
   \<and> map (\<lambda>s. s\<lparr>payment_status := SNull, payment_method := SNull, sale_notes := SNull\<rparr>)
          (sales (snd (updateSale rt f sid b d)))
     = map (\<lambda>s. s\<lparr>payment_status := SNull, payment_method := SNull, sale_notes := SNull\<rparr>) (sales d)
   \<and> map (\<lambda>s. (sale_id s, customer_id s, quantity s, unit_price s, total_amount s))
          (sales (snd (updateSale rt f sid b d)))
     = map (\<lambda>s. (sale_id s, customer_id s, quantity s, unit_price s, total_amount s)) (sales d)
   \<and> ledger_sum rt (snd (updateSale rt f sid b d)) cid = ledger_sum rt d cid
   \<and> ledger_ok rt (snd (updateSale rt f sid b d)) cid = ledger_ok rt d cid
   \<and> list_all (sale_total_ok rt) (sales (snd (updateSale rt f sid b d)))
     = list_all (sale_total_ok rt) (sales d)
   \<and> (can_bind (ub_paymentStatus b) \<and> can_bind (ub_paymentMethod b) \<and> can_bind (ub_notes b)
        \<and> check_in payment_statuses (text_affinity rt (bound (ub_paymentStatus b)))
      \<longrightarrow> updateSale rt None sid b d
            = (Inr (find (\<lambda>s. sale_id s = sid) (map (set_payment rt sid b) (sales d))),
               d\<lparr>sales := map (set_payment rt sid b) (sales d)\<rparr>))
   \<and> (sale_id s = sid \<longrightarrow>
        payment_status (set_payment rt sid b s) = text_affinity rt (bound (ub_paymentStatus b))
        \<and> payment_method (set_payment rt sid b s)
            = text_affinity rt (bound (ub_paymentMethod b))
        \<and> sale_notes (set_payment rt sid b s) = text_affinity rt (bound (ub_notes b)))"
proof -
  have live: "can_bind (ub_paymentStatus b) \<and> can_bind (ub_paymentMethod b)
        \<and> can_bind (ub_notes b)
        \<and> check_in payment_statuses (text_affinity rt (bound (ub_paymentStatus b)))
      \<longrightarrow> updateSale rt None sid b d
            = (Inr (find (\<lambda>s. sale_id s = sid) (map (set_payment rt sid b) (sales d))),
               d\<lparr>sales := map (set_payment rt sid b) (sales d)\<rparr>)"
    by (simp add: updateSale_def Let_def)
  have written: "sale_id s = sid \<longrightarrow>
        payment_status (set_payment rt sid b s) = text_affinity rt (bound (ub_paymentStatus b))
        \<and> payment_method (set_payment rt sid b s)
            = text_affinity rt (bound (ub_paymentMethod b))
        \<and> sale_notes (set_payment rt sid b s) = text_affinity rt (bound (ub_notes b))"
    by (simp add: set_payment_def)
  have cols: "map (\<lambda>s. (sale_id s, customer_id s, quantity s, unit_price s, total_amount s))
          (sales (snd (updateSale rt f sid b d)))
     = map (\<lambda>s. (sale_id s, customer_id s, quantity s, unit_price s, total_amount s)) (sales d)"
    using updateSale_cases[of rt f sid b d] by (auto simp: set_payment_def)
  have "ledger_ok rt (snd (updateSale rt f sid b d)) cid = ledger_ok rt d cid"
    by (simp add: ledger_ok_def purchases_of_def updateSale_ledger_sum updateSale_customers)
  with cols have fr: "(snd (updateSale rt f sid b d))\<lparr>sales := sales d\<rparr> = d
   \<and> customers (snd (updateSale rt f sid b d)) = customers d
   \<and> map (\<lambda>s. s\<lparr>payment_status := SNull, payment_method := SNull, sale_notes := SNull\<rparr>)
          (sales (snd (updateSale rt f sid b d)))
     = map (\<lambda>s. s\<lparr>payment_status := SNull, payment_method := SNull, sale_notes := SNull\<rparr>) (sales d)
   \<and> map (\<lambda>s. (sale_id s, customer_id s, quantity s, unit_price s, total_amount s))
          (sales (snd (updateSale rt f sid b d)))
     = map (\<lambda>s. (sale_id s, customer_id s, quantity s, unit_price s, total_amount s)) (sales d)
   \<and> ledger_sum rt (snd (updateSale rt f sid b d)) cid = ledger_sum rt d cid
   \<and> ledger_ok rt (snd (updateSale rt f sid b d)) cid = ledger_ok rt d cid
   \<and> list_all (sale_total_ok rt) (sales (snd (updateSale rt f sid b d)))
     = list_all (sale_total_ok rt) (sales d)"
    by (simp only: updateSale_others updateSale_customers updateSale_blank
        updateSale_ledger_sum updateSale_total_ok simp_thms)
  show ?thesis
    apply (insert fr live written)
    apply (elim conjE)
    apply (intro conjI; assumption)
    done
qed

text \<open>
  On the sample database: an update of sale 1 that sends only a payment status stores
  that status and NULL in the two other columns (the payment method \<^verbatim>\<open>cash\<close> is
  overwritten), and leaves the customers and the other columns of the sale as they were.
\<close>

theorem updateSale_frame_witness:
  "fst (updateSale sample_rt None 1
       \<lparr>ub_paymentStatus = JStr ''partial'', ub_paymentMethod = JUndef, ub_notes = JUndef\<rparr>
       farm0) \<noteq> Inl ServerError
   \<and> customers (snd (updateSale sample_rt None 1
       \<lparr>ub_paymentStatus = JStr ''partial'', ub_paymentMethod = JUndef, ub_notes = JUndef\<rparr>
       farm0)) = customers farm0
   \<and> map (\<lambda>s. (sale_id s, customer_id s, quantity s, unit_price s, total_amount s))
        (sales (snd (updateSale sample_rt None 1
       \<lparr>ub_paymentStatus = JStr ''partial'', ub_paymentMethod = JUndef, ub_notes = JUndef\<rparr>
       farm0))) = [(1, SNum (Fin 2), SNum (Fin 2), SNum (Fin 3000), SNum (Fin 6000))]
   \<and> map (\<lambda>s. (payment_status s, payment_method s, sale_notes s)) (sales farm0)
       = [(SText ''paid'', SText ''cash'', SNull)]
   \<and> map (\<lambda>s. (payment_status s, payment_method s, sale_notes s))
        (sales (snd (updateSale sample_rt None 1
       \<lparr>ub_paymentStatus = JStr ''partial'', ub_paymentMethod = JUndef, ub_notes = JUndef\<rparr>
       farm0))) = [(SText ''partial'', SNull, SNull)]"
proof -
  let ?b = "\<lparr>ub_paymentStatus = JStr ''partial'', ub_paymentMethod = JUndef,
             ub_notes = JUndef\<rparr>"
  have h: "can_bind (ub_paymentStatus ?b) \<and> can_bind (ub_paymentMethod ?b)
        \<and> can_bind (ub_notes ?b)
        \<and> check_in payment_statuses (text_affinity sample_rt (bound (ub_paymentStatus ?b)))"
    by (simp add: payment_statuses_def bound_def)
  have s1: "sale_id (hd (sales farm0)) = 1" "sales farm0 = [hd (sales farm0)]"
    by (simp_all add: farm0_def)
  have old: "map (\<lambda>s. (payment_status s, payment_method s, sale_notes s)) (sales farm0)
       = [(SText ''paid'', SText ''cash'', SNull)]"
    by (simp add: farm0_def)
  have cols: "map (\<lambda>s. (sale_id s, customer_id s, quantity s, unit_price s, total_amount s))
        (sales farm0) = [(1, SNum (Fin 2), SNum (Fin 2), SNum (Fin 3000), SNum (Fin 6000))]"
    by (simp add: farm0_def)
  have new: "text_affinity sample_rt (bound (ub_paymentStatus ?b)) = SText ''partial''"
    "text_affinity sample_rt (bound (ub_paymentMethod ?b)) = SNull"
    "text_affinity sample_rt (bound (ub_notes ?b)) = SNull"
    by (simp_all add: bound_def)
  have m: "map (set_payment sample_rt 1 ?b) (sales farm0)
           = [set_payment sample_rt 1 ?b (hd (sales farm0))]"
    by (simp add: farm0_def)
  note f = updateSale_frame [where rt = sample_rt and f = None and sid = 1 and d = farm0 and cid = 2
      and b = ?b and s = "hd (sales farm0)"]
  note f2 = f [THEN conjunct2]
  note f4 = f2 [THEN conjunct2, THEN conjunct2]
  note f8 = f4 [THEN conjunct2, THEN conjunct2, THEN conjunct2, THEN conjunct2]
  note run = f8 [THEN conjunct1, THEN mp, OF h]
  note w = f8 [THEN conjunct2, THEN mp, OF s1(1), unfolded new]
  have after: "map (\<lambda>s. (payment_status s, payment_method s, sale_notes s))
        (sales (snd (updateSale sample_rt None 1 ?b farm0))) = [(SText ''partial'', SNull, SNull)]"
    by (simp add: run m w)
  have ok: "fst (updateSale sample_rt None 1 ?b farm0) \<noteq> Inl ServerError"
    by (simp add: run)
  note cu = f2 [THEN conjunct1]
  note co = f4 [THEN conjunct1, unfolded cols]
  from ok cu co old after show ?thesis by (intro conjI)
qed

subsection \<open>The head count of a batch\<close>





















subsection \<open>Order totals\<close>
















subsection \<open>Status updates\<close>





subsection \<open>Order numbers\<close>

lemma digit36_nth: "k < 36 \<Longrightarrow> is_digit36 (digits36 ! k)"
  unfolding is_digit36_def by (rule nth_mem) (simp add: digits36_def)

lemma to_base36_digits: "list_all is_digit36 (to_base36 n) \<and> to_base36 n \<noteq> []"
proof (induction n rule: to_base36.induct)
  case (1 n)
  show ?case
  proof (cases "n < 36")
    case True
    then show ?thesis by (simp add: to_base36.simps[of n] digit36_nth)
  next
    case False
    have "n mod 36 < 36" by simp
    then have "is_digit36 (digits36 ! (n mod 36))" by (rule digit36_nth)
    with False 1 show ?thesis by (simp add: to_base36.simps[of n])
  qed
qed

lemma upper_digit: "is_digit36 c \<Longrightarrow> is_AZ09 (to_upper c)"
  unfolding is_digit36_def is_AZ09_def digits36_def to_upper_def
  by (elim disjE | simp)+

lemma upper_digits: "list_all is_digit36 s \<Longrightarrow> list_all is_AZ09 (toUpperCase s)"
  by (induction s) (simp_all add: toUpperCase_def upper_digit)

lemma AZ09_no_dash: "list_all is_AZ09 s \<Longrightarrow> CHR ''-'' \<notin> set s"
  by (induction s) (auto simp: is_AZ09_def)

lemma split_on_none: "c \<notin> set a \<Longrightarrow> split_on c a = [a]"
  by (induction a) auto

lemma split_on_append: "c \<notin> set a \<Longrightarrow> split_on c (a @ c # b) = a # split_on c b"
  by (induction a) auto

lemma split_three:
  assumes "CHR ''-'' \<notin> set p" and "CHR ''-'' \<notin> set t" and "CHR ''-'' \<notin> set r"
  shows "split_on (CHR ''-'') (p @ ''-'' @ t @ ''-'' @ r) = [p, t, r]"
  using assms by (simp add: split_on_append split_on_none)

lemma generateOrderNumber_parts:
  "generateOrderNumber now rnd
   = ''CFM'' @ ''-'' @ toUpperCase (to_base36 now) @ ''-'' @ toUpperCase (take 4 (drop 2 rnd))"
  by (simp add: generateOrderNumber_def)

lemma suffix_length: "length (toUpperCase (take 4 (drop 2 rnd))) = min 4 (length rnd - 2)"
  by (simp add: toUpperCase_def)

text \<open>
  C6, as the code has it. When the random number prints as \<^verbatim>\<open>0.\<close> followed by at
  least four base-36 digits, the order number is \<^verbatim>\<open>CFM-\<close>, the current time in
  base 36 uppercased, a dash and the first four of these digits uppercased; it matches the
  pattern and its suffix has four characters.
\<close>

theorem order_number_format:
  assumes "list_all is_digit36 ds" and "4 \<le> length ds"
  shows "generateOrderNumber now (''0.'' @ ds)
           = ''CFM-'' @ toUpperCase (to_base36 now) @ ''-'' @ toUpperCase (take 4 ds)
         \<and> length (toUpperCase (take 4 ds)) = 4
         \<and> order_number_pattern (generateOrderNumber now (''0.'' @ ds))"
proof -
  let ?t = "toUpperCase (to_base36 now)"
  let ?r = "toUpperCase (take 4 ds)"
  have eq: "generateOrderNumber now (''0.'' @ ds) = ''CFM'' @ ''-'' @ ?t @ ''-'' @ ?r"
    by (simp add: generateOrderNumber_parts)
  have t: "list_all is_AZ09 ?t" "?t \<noteq> []"
    using to_base36_digits[of now] by (simp_all add: upper_digits) (simp add: toUpperCase_def)
  have "list_all is_digit36 (take 4 ds)"
    using assms(1) by (auto simp: list_all_iff dest: in_set_takeD)
  then have r: "list_all is_AZ09 ?r" by (rule upper_digits)
  have len: "length ?r = 4" using assms(2) by (simp add: toUpperCase_def)
  have "split_on (CHR ''-'') (''CFM'' @ ''-'' @ ?t @ ''-'' @ ?r) = [''CFM'', ?t, ?r]"
    by (rule split_three) (simp_all add: AZ09_no_dash t r)
  then have "order_number_pattern (generateOrderNumber now (''0.'' @ ds))"
    unfolding eq order_number_pattern_def Let_def using t r len by simp
  with eq len show ?thesis by simp
qed

lemma base36_sample: "to_base36 1700000000000 = ''loyw3v28''"
  by (simp add: to_base36.simps digits36_def)

theorem order_number_format_witness:
  "generateOrderNumber 1700000000000 ''0.x9q2abc'' = ''CFM-LOYW3V28-X9Q2''
   \<and> order_number_pattern (generateOrderNumber 1700000000000 ''0.x9q2abc'')"
proof -
  have h1: "list_all is_digit36 ''x9q2abc''" by (simp add: is_digit36_def digits36_def)
  have h2: "4 \<le> length ''x9q2abc''" by simp
  have u: "toUpperCase ''loyw3v28'' = ''LOYW3V28''" "toUpperCase (take 4 ''x9q2abc'') = ''X9Q2''"
    by (simp_all add: toUpperCase_def to_upper_def)
  have a: "''0.'' @ ''x9q2abc'' = ''0.x9q2abc''" by simp
  note f = order_number_format [OF h1 h2, of 1700000000000, unfolded a]
  have g: "generateOrderNumber 1700000000000 ''0.x9q2abc'' = ''CFM-LOYW3V28-X9Q2''"
    using f base36_sample u by simp
  from f have "order_number_pattern (generateOrderNumber 1700000000000 ''0.x9q2abc'')"
    by blast
  with g show ?thesis by blast
qed

text \<open>
  When the random number is 0.5 it prints as \<^verbatim>\<open>0.i\<close>: the suffix is the single
  character \<^verbatim>\<open>I\<close> and the order number does not match the pattern.
\<close>

theorem order_number_short_suffix_counterexample:
  "generateOrderNumber 1700000000000 ''0.i'' = ''CFM-LOYW3V28-I''
   \<and> \<not> order_number_pattern (generateOrderNumber 1700000000000 ''0.i'')"
proof -
  have "generateOrderNumber 1700000000000 ''0.i'' = ''CFM-LOYW3V28-I''"
    by (simp add: generateOrderNumber_def base36_sample toUpperCase_def to_upper_def)
  moreover have "\<not> order_number_pattern ''CFM-LOYW3V28-I''"
    by (simp add: order_number_pattern_def)
  ultimately show ?thesis by simp
qed

subsection \<open>The activity feed\<close>

lemma js_sort_no_order:
  "(\<forall>x \<in> set xs. \<forall>y \<in> set xs. cmp x y = None) \<Longrightarrow> js_sort cmp xs = xs"
proof (induction xs)
  case Nil
  show ?case by (simp add: js_sort_def)
next
  case (Cons x xs)
  then have ih: "js_sort cmp xs = xs" by simp
  show ?case
  proof (cases xs)
    case Nil
    then show ?thesis by (simp add: js_sort_def)
  next
    case (Cons y ys)
    with Cons.prems have "cmp x y = None" by simp
    with ih Cons show ?thesis by (simp add: js_sort_def)
  qed
qed

lemma no_date_column:
  "property (egg_activity e) ''date'' = None"
  "property (sale_activity d s) ''date'' = None"
  "property (health_activity d h) ''date'' = None"
  by (simp_all add: property_def egg_activity_def sale_activity_def health_activity_def)

lemma compare_undefined: "property a ''date'' = None \<Longrightarrow> compare_activities parse a b = None"
  by (simp add: compare_activities_def getTime_def split: option.splits)

text \<open>
  C9. The feed is not ordered by timestamp. The rows carry their date in the column
  \<open>timestamp\<close>, while the comparator of the sort reads the property \<open>date\<close>, which
  no row has: every comparison is NaN and the stable sort moves nothing. For every
  database, limit and date parser the answer is the slice of the concatenation: the newest
  egg records by creation time, then the newest sales, then the newest health records.
\<close>

theorem activities_ignore_timestamps:
  "activities parse q d =
     js_slice0 (num_or q 20)
       (map egg_activity
          (sql_limit (num_or q 20) (order_by_desc egg_created_at (egg_production d)))
        @ map (sale_activity d)
          (sql_limit (num_or q 20) (order_by_desc sale_created_at (sales d)))
        @ map (health_activity d)
          (sql_limit (num_or q 20) (order_by_desc hr_created_at (health_records d))))"
proof -
  let ?rows = "map egg_activity
          (sql_limit (num_or q 20) (order_by_desc egg_created_at (egg_production d)))
        @ map (sale_activity d)
          (sql_limit (num_or q 20) (order_by_desc sale_created_at (sales d)))
        @ map (health_activity d)
          (sql_limit (num_or q 20) (order_by_desc hr_created_at (health_records d)))"
  have "\<forall>a \<in> set ?rows. property a ''date'' = None"
    by (auto simp: no_date_column)
  then have "\<forall>a \<in> set ?rows. \<forall>b \<in> set ?rows. compare_activities parse a b = None"
    by (simp add: compare_undefined)
  then have "js_sort (compare_activities parse) ?rows = ?rows" by (rule js_sort_no_order)
  then show ?thesis by (simp add: activities_def Let_def)
qed

text \<open>
  On the sample database, with no limit given: the egg record of 2024-01-01 comes first,
  then the sale of 2024-05-01, then the health record of 2024-03-01, so the feed is not
  newest first.
\<close>

theorem activities_ignore_timestamps_witness:
  "timestamps sample_dates (activities sample_dates None feed0)
     = [1704067200000, 1714521600000, 1709251200000]
   \<and> \<not> newest_first sample_dates (activities sample_dates None feed0)"
proof -
  have rows: "map egg_activity (sql_limit (num_or None 20)
                 (order_by_desc egg_created_at (egg_production feed0)))
        @ map (sale_activity feed0) (sql_limit (num_or None 20)
                 (order_by_desc sale_created_at (sales feed0)))
        @ map (health_activity feed0) (sql_limit (num_or None 20)
                 (order_by_desc hr_created_at (health_records feed0)))
      = [egg_activity (hd (egg_production feed0)), sale_activity feed0 (hd (sales feed0)),
         health_activity feed0 (hd (health_records feed0))]"
    by (simp add: feed0_def farm0_def num_or_def sql_limit_def order_by_desc_def)
  have ts: "timestamps sample_dates
       [egg_activity (hd (egg_production feed0)), sale_activity feed0 (hd (sales feed0)),
         health_activity feed0 (hd (health_records feed0))]
     = [1704067200000, 1714521600000, 1709251200000]"
    by (simp add: timestamps_def getTime_def property_def egg_activity_def sale_activity_def
        health_activity_def feed0_def farm0_def sample_dates_def)
  have "js_slice0 (num_or None 20)
       [egg_activity (hd (egg_production feed0)), sale_activity feed0 (hd (sales feed0)),
         health_activity feed0 (hd (health_records feed0))]
     = [egg_activity (hd (egg_production feed0)), sale_activity feed0 (hd (sales feed0)),
         health_activity feed0 (hd (health_records feed0))]"
    by (simp add: js_slice0_def num_or_def)
  with activities_ignore_timestamps [of sample_dates None feed0, unfolded rows]
  have "activities sample_dates None feed0 =
     [egg_activity (hd (egg_production feed0)), sale_activity feed0 (hd (sales feed0)),
         health_activity feed0 (hd (health_records feed0))]"
    by (rule trans)
  with ts show ?thesis by (simp add: newest_first_def)
qed

lemma activities_length:
  "0 \<le> num_or q 20 \<Longrightarrow> length (activities parse q d) \<le> nat (num_or q 20)"
  by (simp add: activities_def js_slice0_def Let_def)

end
